theory Spec2Isabelle
  imports Main "HOL-Library.Sublist"
begin

section \<open>JavaScript strings\<close>

text \<open>
  A string is a list of UTF-16 code units, of which the units below 256 are representable;
  \<open>length\<close> is JavaScript's \<open>.length\<close>.  The stream is taken after \<open>TextDecoder\<close>: a chunk
  is the text one \<open>reader.read()\<close> contributes.

  \<open>isWhiteSpace\<close> is the class that both \<open>String.prototype.trim\<close> and the regular
  expression escape \<open>\s\<close> use, restricted to those units.
\<close>

definition isWhiteSpace :: "char \<Rightarrow> bool" where
  "isWhiteSpace c \<longleftrightarrow>
     c = CHR 0x09 \<or> c = CHR 0x0A \<or> c = CHR 0x0B \<or> c = CHR 0x0C \<or> c = CHR 0x0D
     \<or> c = CHR 0x20 \<or> c = CHR 0xA0"

definition trim :: "string \<Rightarrow> string" where
  "trim s = rev (dropWhile isWhiteSpace (rev (dropWhile isWhiteSpace s)))"

text \<open>
  \<open>s.indexOf(pat)\<close> is the first position where \<open>pat\<close> occurs, or \<open>-1\<close>;
  \<open>s.substring(start)\<close> clamps a negative \<open>start\<close> to 0 and one beyond the end to the end.
\<close>

fun indexOfFrom :: "nat \<Rightarrow> string \<Rightarrow> string \<Rightarrow> int" where
  "indexOfFrom k [] pat = (if pat = [] then int k else - 1)"
| "indexOfFrom k (c # cs) pat =
     (if prefix pat (c # cs) then int k else indexOfFrom (Suc k) cs pat)"

definition indexOf :: "string \<Rightarrow> string \<Rightarrow> int" where
  "indexOf s pat = indexOfFrom 0 s pat"

definition substring :: "string \<Rightarrow> int \<Rightarrow> string" where
  "substring s start = drop (nat start) s"

text \<open>
  \<open>s.split(/,?\n/)\<close>: scanning from the left, a comma directly followed by a line feed, or
  else a line feed alone, ends the current piece.  The pattern never matches the empty
  string, so the empty string splits into one empty piece.
\<close>

fun split_sep :: "string \<Rightarrow> string list" where
  "split_sep [] = [[]]"
| "split_sep [c] = (if c = CHR 0x0A then [[], []] else [[c]])"
| "split_sep (c # d # cs) =
     (if c = CHR '','' \<and> d = CHR 0x0A then [] # split_sep cs
      else if c = CHR 0x0A then [] # split_sep (d # cs)
      else (case split_sep (d # cs) of f # fs \<Rightarrow> (c # f) # fs | [] \<Rightarrow> [[c]]))"

section \<open>\<open>JSON.parse\<close>\<close>

text \<open>
  \<open>JSON.parse\<close> is a function of the platform.  It is modelled by a tokeniser and a pushdown
  recogniser for the JSON grammar; \<open>None\<close> is the \<open>SyntaxError\<close> it throws.  A number keeps
  its literal.  An escape \<open>\uXXXX\<close> of a unit above 255 has no representation in this
  character type and is rejected.  The tokeniser walks the text once: \<open>token_at\<close> reports
  how many characters a token spans and \<open>tokens\<close> skips that many.
\<close>

datatype json =
    JNull | JBool bool | JNum string | JStr string
  | JArr "json list" | JObj "(string \<times> json) list"

datatype token =
    TLBrace | TRBrace | TLBrack | TRBrack | TColon | TComma
  | TString string | TNumber string | TTrue | TFalse | TNull

definition isDigit :: "char \<Rightarrow> bool" where
  "isDigit c \<longleftrightarrow> (48::nat) \<le> of_char c \<and> of_char c \<le> (57::nat)"

definition hexval :: "char \<Rightarrow> nat option" where
  "hexval c =
     (let n = (of_char c :: nat) in
      if 48 \<le> n \<and> n \<le> 57 then Some (n - 48)
      else if 65 \<le> n \<and> n \<le> 70 then Some (n - 55)
      else if 97 \<le> n \<and> n \<le> 102 then Some (n - 87)
      else None)"

definition hex4 :: "char \<Rightarrow> char \<Rightarrow> char \<Rightarrow> char \<Rightarrow> nat option" where
  "hex4 a b c d =
     (case (hexval a, hexval b, hexval c, hexval d) of
        (Some w, Some x, Some y, Some z) \<Rightarrow> Some (((w * 16 + x) * 16 + y) * 16 + z)
      | _ \<Rightarrow> None)"

definition unescape :: "char \<Rightarrow> char option" where
  "unescape e =
     (if e = CHR 0x22 then Some (CHR 0x22)
      else if e = CHR 0x5C then Some (CHR 0x5C)
      else if e = CHR ''/'' then Some (CHR ''/'')
      else if e = CHR ''b'' then Some (CHR 0x08)
      else if e = CHR ''f'' then Some (CHR 0x0C)
      else if e = CHR ''n'' then Some (CHR 0x0A)
      else if e = CHR ''r'' then Some (CHR 0x0D)
      else if e = CHR ''t'' then Some (CHR 0x09)
      else None)"

fun string_body :: "string \<Rightarrow> nat \<Rightarrow> string \<Rightarrow> (string \<times> nat) option" where
  "string_body acc n [] = None"
| "string_body acc n (c # cs) =
     (if c = CHR 0x22 then Some (acc, Suc n)
      else if c = CHR 0x5C then
        (case cs of
           [] \<Rightarrow> None
         | e # es \<Rightarrow>
             if e = CHR ''u'' then
               (case es of
                  h1 # h2 # h3 # h4 # rest \<Rightarrow>
                    (case hex4 h1 h2 h3 h4 of
                       None \<Rightarrow> None
                     | Some u \<Rightarrow>
                         if u < 256 then string_body (acc @ [char_of u]) (n + 6) rest
                         else None)
                | _ \<Rightarrow> None)
             else
               (case unescape e of
                  None \<Rightarrow> None
                | Some ch \<Rightarrow> string_body (acc @ [ch]) (n + 2) es))
      else if (of_char c :: nat) < 32 then None
      else string_body (acc @ [c]) (Suc n) cs)"

definition digits1 :: "string \<Rightarrow> string option" where
  "digits1 s = (if takeWhile isDigit s = [] then None else Some (dropWhile isDigit s))"

definition valid_number :: "string \<Rightarrow> bool" where
  "valid_number lit =
     (let s0 = (case lit of c # cs \<Rightarrow> if c = CHR ''-'' then cs else lit | [] \<Rightarrow> lit);
          s1 = (case s0 of
                  [] \<Rightarrow> None
                | c # cs \<Rightarrow> if c = CHR ''0'' then Some cs else digits1 s0);
          s2 = (case s1 of
                  None \<Rightarrow> None
                | Some [] \<Rightarrow> Some []
                | Some (c # cs) \<Rightarrow> if c = CHR ''.'' then digits1 cs else Some (c # cs));
          s3 = (case s2 of
                  None \<Rightarrow> None
                | Some [] \<Rightarrow> Some []
                | Some (c # cs) \<Rightarrow>
                    if c = CHR ''e'' \<or> c = CHR ''E'' then
                      (case cs of
                         [] \<Rightarrow> None
                       | d # ds \<Rightarrow> if d = CHR ''+'' \<or> d = CHR ''-'' then digits1 ds else digits1 cs)
                    else Some (c # cs))
      in s3 = Some [])"

definition isNumberChar :: "char \<Rightarrow> bool" where
  "isNumberChar c \<longleftrightarrow>
     isDigit c \<or> c = CHR ''-'' \<or> c = CHR ''+'' \<or> c = CHR ''.'' \<or> c = CHR ''e'' \<or> c = CHR ''E''"

definition token_at :: "string \<Rightarrow> (token \<times> nat) option" where
  "token_at s =
     (case s of
        [] \<Rightarrow> None
      | c # cs \<Rightarrow>
          if c = CHR ''{'' then Some (TLBrace, 1)
          else if c = CHR ''}'' then Some (TRBrace, 1)
          else if c = CHR ''['' then Some (TLBrack, 1)
          else if c = CHR '']'' then Some (TRBrack, 1)
          else if c = CHR '':'' then Some (TColon, 1)
          else if c = CHR '','' then Some (TComma, 1)
          else if c = CHR 0x22 then
            (case string_body [] 1 cs of
               None \<Rightarrow> None
             | Some (str, n) \<Rightarrow> Some (TString str, n))
          else if isDigit c \<or> c = CHR ''-'' then
            (let lit = takeWhile isNumberChar s
             in if valid_number lit then Some (TNumber lit, length lit) else None)
          else if prefix ''true'' s then Some (TTrue, 4)
          else if prefix ''false'' s then Some (TFalse, 5)
          else if prefix ''null'' s then Some (TNull, 4)
          else None)"

definition isJsonSpace :: "char \<Rightarrow> bool" where
  "isJsonSpace c \<longleftrightarrow> c = CHR 0x09 \<or> c = CHR 0x0A \<or> c = CHR 0x0D \<or> c = CHR 0x20"

fun tokens :: "nat \<Rightarrow> string \<Rightarrow> token list option" where
  "tokens skip [] = Some []"
| "tokens skip (c # cs) =
     (if 0 < skip then tokens (skip - 1) cs
      else if isJsonSpace c then tokens 0 cs
      else
        (case token_at (c # cs) of
           None \<Rightarrow> None
         | Some (t, n) \<Rightarrow> map_option ((#) t) (tokens (n - 1) cs)))"

datatype frame = InArray "json list" | InObject "(string \<times> json) list" "string option"

datatype expect =
    WantValue | WantValueOrClose | WantKeyOrClose | WantKey | WantColon
  | WantCommaOrClose | Complete json

fun push_value :: "json \<Rightarrow> frame list \<Rightarrow> (expect \<times> frame list) option" where
  "push_value v [] = Some (Complete v, [])"
| "push_value v (InArray vs # st) = Some (WantCommaOrClose, InArray (vs @ [v]) # st)"
| "push_value v (InObject kvs (Some k) # st) =
     Some (WantCommaOrClose, InObject (kvs @ [(k, v)]) None # st)"
| "push_value v (InObject kvs None # st) = None"

fun begin_value :: "token \<Rightarrow> frame list \<Rightarrow> (expect \<times> frame list) option" where
  "begin_value (TString s) st = push_value (JStr s) st"
| "begin_value (TNumber n) st = push_value (JNum n) st"
| "begin_value TTrue st = push_value (JBool True) st"
| "begin_value TFalse st = push_value (JBool False) st"
| "begin_value TNull st = push_value JNull st"
| "begin_value TLBrack st = Some (WantValueOrClose, InArray [] # st)"
| "begin_value TLBrace st = Some (WantKeyOrClose, InObject [] None # st)"
| "begin_value _ st = None"

fun close_array :: "frame list \<Rightarrow> (expect \<times> frame list) option" where
  "close_array (InArray vs # st) = push_value (JArr vs) st"
| "close_array _ = None"

fun close_object :: "frame list \<Rightarrow> (expect \<times> frame list) option" where
  "close_object (InObject kvs None # st) = push_value (JObj kvs) st"
| "close_object _ = None"

fun begin_key :: "string \<Rightarrow> frame list \<Rightarrow> (expect \<times> frame list) option" where
  "begin_key k (InObject kvs None # st) = Some (WantColon, InObject kvs (Some k) # st)"
| "begin_key k _ = None"

fun after_comma :: "frame list \<Rightarrow> (expect \<times> frame list) option" where
  "after_comma (InArray vs # st) = Some (WantValue, InArray vs # st)"
| "after_comma (InObject kvs None # st) = Some (WantKey, InObject kvs None # st)"
| "after_comma _ = None"

fun parse_step :: "expect \<Rightarrow> frame list \<Rightarrow> token \<Rightarrow> (expect \<times> frame list) option" where
  "parse_step WantValue st t = begin_value t st"
| "parse_step WantValueOrClose st t = (if t = TRBrack then close_array st else begin_value t st)"
| "parse_step WantKeyOrClose st t =
     (case t of TString k \<Rightarrow> begin_key k st | TRBrace \<Rightarrow> close_object st | _ \<Rightarrow> None)"
| "parse_step WantKey st t = (case t of TString k \<Rightarrow> begin_key k st | _ \<Rightarrow> None)"
| "parse_step WantColon st t = (if t = TColon then Some (WantValue, st) else None)"
| "parse_step WantCommaOrClose st t =
     (case t of
        TComma \<Rightarrow> after_comma st
      | TRBrack \<Rightarrow> close_array st
      | TRBrace \<Rightarrow> close_object st
      | _ \<Rightarrow> None)"
| "parse_step (Complete v) st t = None"

fun parse_tokens :: "expect \<Rightarrow> frame list \<Rightarrow> token list \<Rightarrow> json option" where
  "parse_tokens e st [] = (case (e, st) of (Complete v, []) \<Rightarrow> Some v | _ \<Rightarrow> None)"
| "parse_tokens e st (t # ts) =
     (case parse_step e st t of None \<Rightarrow> None | Some (e', st') \<Rightarrow> parse_tokens e' st' ts)"

definition JSON_parse :: "string \<Rightarrow> json option" where
  "JSON_parse s = (case tokens 0 s of None \<Rightarrow> None | Some ts \<Rightarrow> parse_tokens WantValue [] ts)"

section \<open>Decoding one record\<close>

text \<open>
  The test of the parse loop,
  \<^verbatim>\<open>jsonObject.candidates && jsonObject.candidates[0] && jsonObject.candidates[0].content &&
  jsonObject.candidates[0].content.parts && jsonObject.candidates[0].content.parts[0].text\<close>,
  with JavaScript's rules for property access: reading a property of \<open>null\<close> or
  \<open>undefined\<close> throws a \<open>TypeError\<close>, a missing property is \<open>undefined\<close> (\<open>None\<close> below),
  \<open>x[0]\<close> is the first element of an array, the property \<open>"0"\<close> of an object and the
  first unit of a string, and of two equal keys the later one counts.  A number is falsy
  when it is zero, which is read off the digits of its literal.
\<close>

datatype js_error = TypeError | SyntaxError

fun truthy :: "json \<Rightarrow> bool" where
  "truthy JNull = False"
| "truthy (JBool b) = b"
| "truthy (JNum lit) =
     (\<exists>c \<in> set (takeWhile (\<lambda>c. c \<noteq> CHR ''e'' \<and> c \<noteq> CHR ''E'') lit).
        isDigit c \<and> c \<noteq> CHR ''0'')"
| "truthy (JStr s) = (s \<noteq> [])"
| "truthy (JArr vs) = True"
| "truthy (JObj kvs) = True"

fun member :: "json \<Rightarrow> string \<Rightarrow> json option" where
  "member (JObj kvs) name = map_of (rev kvs) name"
| "member _ name = None"

fun index0 :: "json \<Rightarrow> json option" where
  "index0 (JArr vs) = (case vs of [] \<Rightarrow> None | v # _ \<Rightarrow> Some v)"
| "index0 (JObj kvs) = map_of (rev kvs) ''0''"
| "index0 (JStr s) = (case s of [] \<Rightarrow> None | c # _ \<Rightarrow> Some (JStr [c]))"
| "index0 _ = None"

definition extract_text :: "json \<Rightarrow> js_error + json option" where
  "extract_text jsonObject =
     (if jsonObject = JNull then Inl TypeError
      else case member jsonObject ''candidates'' of
        None \<Rightarrow> Inr None
      | Some candidates \<Rightarrow>
          if \<not> truthy candidates then Inr None
          else case index0 candidates of
            None \<Rightarrow> Inr None
          | Some candidate \<Rightarrow>
              if \<not> truthy candidate then Inr None
              else case member candidate ''content'' of
                None \<Rightarrow> Inr None
              | Some content \<Rightarrow>
                  if \<not> truthy content then Inr None
                  else case member content ''parts'' of
                    None \<Rightarrow> Inr None
                  | Some parts \<Rightarrow>
                      if \<not> truthy parts then Inr None
                      else case index0 parts of
                        None \<Rightarrow> Inl TypeError
                      | Some part \<Rightarrow>
                          if part = JNull then Inl TypeError
                          else case member part ''text'' of
                            None \<Rightarrow> Inr None
                          | Some text \<Rightarrow> if truthy text then Inr (Some text) else Inr None)"

text \<open>
  \<open>responseText += textChunk\<close> converts the value to a string.  The payload of the API
  is a string; for the other truthy values the conversion is \<open>String(v)\<close>, where a number
  is rendered by its literal.
\<close>

fun join_comma :: "string list \<Rightarrow> string" where
  "join_comma [] = []"
| "join_comma [s] = s"
| "join_comma (s # t # ss) = s @ '','' @ join_comma (t # ss)"

fun js_to_string :: "json \<Rightarrow> string" where
  "js_to_string JNull = ''null''"
| "js_to_string (JBool b) = (if b then ''true'' else ''false'')"
| "js_to_string (JNum lit) = lit"
| "js_to_string (JStr s) = s"
| "js_to_string (JArr vs) =
     join_comma (map (\<lambda>v. if v = JNull then [] else js_to_string v) vs)"
| "js_to_string (JObj kvs) = ''[object Object]''"

text \<open>
  What one pass of the inner \<open>try\<close> makes of a candidate: \<open>Some text\<close> when the record
  parses and carries a truthy text, \<open>None\<close> when \<open>JSON.parse\<close> or the test throws (the
  \<open>catch\<close> only logs) or the test is falsy.
\<close>

definition decodeRecord :: "string \<Rightarrow> string option" where
  "decodeRecord jsonStr =
     (case JSON_parse jsonStr of
        None \<Rightarrow> None
      | Some jsonObject \<Rightarrow>
          (case extract_text jsonObject of
             Inl err \<Rightarrow> None
           | Inr None \<Rightarrow> None
           | Inr (Some textChunk) \<Rightarrow> Some (js_to_string textChunk)))"

section \<open>The streaming parse loop (geminiService.ts)\<close>

text \<open>
  The state of the loop: the buffer \<open>fullJsonStr\<close>, the text extracted so far, and the
  calls of the callback \<open>onChunk\<close> in order, each by the string its argument converts to.
  The decoder of a candidate is an argument, so that the loop can be studied for any
  behaviour of \<open>JSON.parse\<close>; the program runs it with \<open>decodeRecord\<close>.

  \<open>loop_body\<close> is one iteration of the \<open>for\<close> loop over \<open>jsonObjects\<close>, the list computed
  when the pass starts; \<open>process_chunk\<close> is one iteration of the \<open>while\<close> loop, for a read
  that is not \<open>done\<close>; \<open>read_loop\<close> runs it over the chunks until the reader is done.
\<close>

record stream_state =
  fullJsonStr :: string
  responseText :: string
  onChunk_calls :: "string list"

definition initial_state :: stream_state where
  "initial_state = \<lparr>fullJsonStr = [], responseText = [], onChunk_calls = []\<rparr>"

definition loop_body ::
  "(string \<Rightarrow> string option) \<Rightarrow> string list \<Rightarrow> nat \<Rightarrow> stream_state \<Rightarrow> stream_state" where
  "loop_body dec jsonObjects i st =
     (let jsonStr = trim (jsonObjects ! i) in
      if jsonStr = [] then st
      else case dec jsonStr of
        None \<Rightarrow> st
      | Some textChunk \<Rightarrow>
          (let processedLength =
                 int (length jsonStr) + (if i + 1 < length jsonObjects then 1 else 0)
           in st\<lparr>responseText := responseText st @ textChunk,
                 onChunk_calls := onChunk_calls st @ [textChunk],
                 fullJsonStr :=
                   substring (fullJsonStr st)
                     (indexOf (fullJsonStr st) jsonStr + processedLength)\<rparr>))"

definition process_chunk ::
  "(string \<Rightarrow> string option) \<Rightarrow> string \<Rightarrow> stream_state \<Rightarrow> stream_state" where
  "process_chunk dec chunk st =
     (let st1 = st\<lparr>fullJsonStr := fullJsonStr st @ chunk\<rparr>;
          jsonObjects = filter (\<lambda>line. trim line \<noteq> []) (split_sep (fullJsonStr st1))
      in fold (loop_body dec jsonObjects) [0..<length jsonObjects] st1)"

definition read_loop ::
  "(string \<Rightarrow> string option) \<Rightarrow> string list \<Rightarrow> stream_state" where
  "read_loop dec chunks = fold (process_chunk dec) chunks initial_state"

text \<open>
  The salvage pass: \<open>fullJsonStr.match(/"text"\s*:\s*"([^"]+)"/g)\<close> lists the matches from
  the left, each search starting where the last match ended.  In this pattern every
  quantifier is followed by a character it cannot match, so a position matches in one way
  or not at all.  Each match is stripped by
  \<^verbatim>\<open>match.replace(/"text"\s*:\s*"/, '').replace(/"$/, '')\<close>.
\<close>

definition text_prefix_len :: "string \<Rightarrow> nat option" where
  "text_prefix_len s =
     (if prefix ''\"text\"'' s then
        (let s1 = drop 6 s;
             w1 = takeWhile isWhiteSpace s1
         in case dropWhile isWhiteSpace s1 of
              [] \<Rightarrow> None
            | c # s3 \<Rightarrow>
                if c = CHR '':'' then
                  (let w2 = takeWhile isWhiteSpace s3
                   in case dropWhile isWhiteSpace s3 of
                        [] \<Rightarrow> None
                      | q # s5 \<Rightarrow>
                          if q = CHR 0x22 then Some (6 + length w1 + 1 + length w2 + 1)
                          else None)
                else None)
      else None)"

definition text_match_len :: "string \<Rightarrow> nat option" where
  "text_match_len s =
     (case text_prefix_len s of
        None \<Rightarrow> None
      | Some n \<Rightarrow>
          (let body = takeWhile (\<lambda>c. c \<noteq> CHR 0x22) (drop n s)
           in if body \<noteq> [] \<and> n + length body < length s
              then Some (n + length body + 1) else None))"

fun match_global :: "nat \<Rightarrow> string \<Rightarrow> string list" where
  "match_global skip [] = []"
| "match_global skip (c # cs) =
     (if 0 < skip then match_global (skip - 1) cs
      else case text_match_len (c # cs) of
        None \<Rightarrow> match_global 0 cs
      | Some n \<Rightarrow> take n (c # cs) # match_global (n - 1) cs)"

fun replace_text_prefix :: "string \<Rightarrow> string" where
  "replace_text_prefix [] = []"
| "replace_text_prefix (c # cs) =
     (case text_prefix_len (c # cs) of
        None \<Rightarrow> c # replace_text_prefix cs
      | Some n \<Rightarrow> drop n (c # cs))"

definition replace_final_quote :: "string \<Rightarrow> string" where
  "replace_final_quote s = (if s \<noteq> [] \<and> last s = CHR 0x22 then butlast s else s)"

definition salvage :: "stream_state \<Rightarrow> stream_state" where
  "salvage st =
     (if responseText st = [] then
        fold (\<lambda>match s.
                let text = replace_final_quote (replace_text_prefix match)
                in s\<lparr>responseText := responseText s @ text,
                     onChunk_calls := onChunk_calls s @ [text]\<rparr>)
             (match_global 0 (fullJsonStr st)) st
      else st)"

section \<open>\<open>generateStreamingResponse\<close> (geminiService.ts)\<close>

text \<open>
  The credential: a module variable, the default key of the remote table (\<open>None\<close> when
  the lookup fails) and the key in local storage.  \<open>getApiKey\<close> fills the variable from
  the first of the two that is truthy and returns the variable.
\<close>

record credential_store =
  GEMINI_API_KEY :: string
  default_api_key :: "string option"
  stored_api_key :: "string option"

definition getApiKey :: "credential_store \<Rightarrow> string \<times> credential_store" where
  "getApiKey cs =
     (if GEMINI_API_KEY cs = [] then
        (case default_api_key cs of
           Some dbKey \<Rightarrow>
             if dbKey \<noteq> [] then (dbKey, cs\<lparr>GEMINI_API_KEY := dbKey\<rparr>)
             else (case stored_api_key cs of
                     Some storedKey \<Rightarrow>
                       if storedKey \<noteq> [] then (storedKey, cs\<lparr>GEMINI_API_KEY := storedKey\<rparr>)
                       else (GEMINI_API_KEY cs, cs)
                   | None \<Rightarrow> (GEMINI_API_KEY cs, cs))
         | None \<Rightarrow>
             (case stored_api_key cs of
                Some storedKey \<Rightarrow>
                  if storedKey \<noteq> [] then (storedKey, cs\<lparr>GEMINI_API_KEY := storedKey\<rparr>)
                  else (GEMINI_API_KEY cs, cs)
              | None \<Rightarrow> (GEMINI_API_KEY cs, cs)))
      else (GEMINI_API_KEY cs, cs))"

definition hasApiKey :: "credential_store \<Rightarrow> bool" where
  "hasApiKey cs = (fst (getApiKey cs) \<noteq> [])"

text \<open>
  What the network answers is an argument: \<open>fetch\<close> rejects, or resolves to a response
  with its status, the error body if it has one, and its body, which is absent or a
  sequence of chunks that ends with \<open>done\<close> or with a read that rejects.
  The composition of the prompt does not influence what is done with the answer and is
  left out; the request is logged with the key it carries.
\<close>

datatype stream_end = ReaderDone | ReadRejected string

record http_response =
  ok :: bool
  status_line :: string
  error_data :: "string option"
  body :: "(string list \<times> stream_end) option"

datatype fetch_result = FetchRejected string | Response http_response

datatype engine_error =
    ApiKeyNotSet
  | ApiError string
  | ResponseBodyEmpty
  | Rejected string

datatype effect =
    ToastErr string
  | FetchStream string
  | OnChunk string

record engine_run =
  effects :: "effect list"
  outcome :: "engine_error + unit"

definition fallbackResponse :: string where
  "fallbackResponse =
     ''I'' @ [CHR 0x27] @ ''m sorry, but I couldn'' @ [CHR 0x27] @
     ''t generate a proper response. Please try again or check your API key.''"

definition failed_to_get :: "string \<Rightarrow> effect" where
  "failed_to_get msg = ToastErr (''Failed to get response: '' @ msg)"

definition generateStreamingResponseWith ::
  "(string \<Rightarrow> string option) \<Rightarrow> string \<Rightarrow> fetch_result \<Rightarrow> engine_run" where
  "generateStreamingResponseWith dec apiKey answer =
     (if apiKey = [] then
        \<lparr>effects = [ToastErr ''Please set your Gemini API key first''],
         outcome = Inl ApiKeyNotSet\<rparr>
      else case answer of
        FetchRejected msg \<Rightarrow>
          \<lparr>effects = [FetchStream apiKey, failed_to_get msg], outcome = Inl (Rejected msg)\<rparr>
      | Response response \<Rightarrow>
          if \<not> ok response then
            (let errorMessage =
                   (case error_data response of
                      Some errorData \<Rightarrow> ''API error: '' @ errorData
                    | None \<Rightarrow> ''API error: '' @ status_line response)
             in \<lparr>effects = [FetchStream apiKey,
                             ToastErr ''Failed to get response from Gemini API'',
                             failed_to_get errorMessage],
                  outcome = Inl (ApiError errorMessage)\<rparr>)
          else case body response of
            None \<Rightarrow>
              \<lparr>effects = [FetchStream apiKey, ToastErr ''Response body is empty'',
                          failed_to_get ''Response body is empty''],
               outcome = Inl ResponseBodyEmpty\<rparr>
          | Some (chunks, ReadRejected msg) \<Rightarrow>
              \<lparr>effects = [FetchStream apiKey]
                         @ map OnChunk (onChunk_calls (read_loop dec chunks))
                         @ [failed_to_get msg],
               outcome = Inl (Rejected msg)\<rparr>
          | Some (chunks, ReaderDone) \<Rightarrow>
              (let st = salvage (read_loop dec chunks)
               in \<lparr>effects = [FetchStream apiKey]
                              @ map OnChunk (onChunk_calls st)
                              @ (if length (responseText st) = 0
                                 then [ToastErr ''Received empty response from API'',
                                       OnChunk fallbackResponse]
                                 else []),
                    outcome = Inr ()\<rparr>))"

definition generateStreamingResponse :: "credential_store \<Rightarrow> fetch_result \<Rightarrow> engine_run" where
  "generateStreamingResponse cs answer =
     generateStreamingResponseWith decodeRecord (fst (getApiKey cs)) answer"

text \<open>The fragments a run delivered to the callback, and whether it reached the network.\<close>

fun fragments :: "effect list \<Rightarrow> string list" where
  "fragments [] = []"
| "fragments (OnChunk t # es) = t # fragments es"
| "fragments (e # es) = fragments es"

fun fetched :: "effect list \<Rightarrow> bool" where
  "fetched [] = False"
| "fetched (FetchStream k # es) = True"
| "fetched (e # es) = fetched es"

text \<open>A stream that arrives whole and in order, in the given chunks.\<close>

definition stream_of :: "string list \<Rightarrow> fetch_result" where
  "stream_of chunks =
     Response \<lparr>ok = True, status_line = ''200 OK'', error_data = None,
               body = Some (chunks, ReaderDone)\<rparr>"

section \<open>Conversation store (conversationService.ts)\<close>

text \<open>
  The remote relational store is modelled by the two tables the functions below touch.
  A string is a list of UTF-16 code units; only units below 256 are representable, and
  \<open>length\<close> is JavaScript's \<open>.length\<close>.  Instants are natural numbers.
\<close>

record conversation_row =
  c_id :: string
  c_title :: string
  c_updated_at :: nat

record message_row =
  m_conversation_id :: string
  m_role :: string
  m_content :: string
  m_timestamp :: nat

record store =
  conversations :: "conversation_row list"
  messages :: "message_row list"

text \<open>
  Every remote call either succeeds or comes back with an error (or throws); which of
  the two happens is decided by the environment and is an argument of the model
  (\<open>True\<close> = the call fails).  A failed call leaves the tables as they were.
  The calls a function issues are logged in order, each with the store it was issued on.
\<close>

datatype store_call =
    DeleteMessagesOf string
  | DeleteConversationRow string
  | UpdateConversationRow string string
  | InsertConversationRow string

datatype toast = ToastError string | ToastSuccess string

record 'r store_run =
  final_store :: store
  issued :: "(store_call \<times> store) list"
  toasts :: "toast list"
  returned :: 'r

definition delete_messages_eq :: "string \<Rightarrow> store \<Rightarrow> store" where
  "delete_messages_eq cid db =
     db\<lparr>messages := filter (\<lambda>m. m_conversation_id m \<noteq> cid) (messages db)\<rparr>"

definition delete_conversations_eq :: "string \<Rightarrow> store \<Rightarrow> store" where
  "delete_conversations_eq cid db =
     db\<lparr>conversations := filter (\<lambda>c. c_id c \<noteq> cid) (conversations db)\<rparr>"

definition update_conversations_eq :: "string \<Rightarrow> string \<Rightarrow> nat \<Rightarrow> store \<Rightarrow> store" where
  "update_conversations_eq cid title now db =
     db\<lparr>conversations :=
          map (\<lambda>c. if c_id c = cid then c\<lparr>c_title := title, c_updated_at := now\<rparr> else c)
              (conversations db)\<rparr>"

text \<open>
  \<open>deleteConversation\<close>: the messages are deleted first; an error there is thrown into
  the \<open>catch\<close>, which raises a toast and returns \<open>false\<close>; only then the row is deleted.
\<close>

definition deleteConversation :: "bool \<Rightarrow> bool \<Rightarrow> string \<Rightarrow> store \<Rightarrow> bool store_run" where
  "deleteConversation messagesError conversationError cid db =
     (if messagesError then
        \<lparr>final_store = db, issued = [(DeleteMessagesOf cid, db)],
         toasts = [ToastError ''Failed to delete conversation''], returned = False\<rparr>
      else
        let db1 = delete_messages_eq cid db in
        if conversationError then
          \<lparr>final_store = db1,
           issued = [(DeleteMessagesOf cid, db), (DeleteConversationRow cid, db1)],
           toasts = [ToastError ''Failed to delete conversation''], returned = False\<rparr>
        else
          \<lparr>final_store = delete_conversations_eq cid db1,
           issued = [(DeleteMessagesOf cid, db), (DeleteConversationRow cid, db1)],
           toasts = [], returned = True\<rparr>)"

text \<open>
  \<open>createConversation\<close>: without a user a toast and \<open>null\<close>; else one row is inserted
  with the title given, by default \<open>New Conversation\<close>, and its id is returned; an error
  of the insertion is thrown into the \<open>catch\<close>, which raises a toast and returns \<open>null\<close>.
  The store draws the id and the instant of the new row; they are arguments.
\<close>

definition createConversation ::
  "bool \<Rightarrow> bool \<Rightarrow> string \<Rightarrow> nat \<Rightarrow> string \<Rightarrow> store \<Rightarrow> string option store_run" where
  "createConversation noUser insertError new_id now title db =
     (if noUser then
        \<lparr>final_store = db, issued = [],
         toasts = [ToastError ''You must be logged in to create a conversation''],
         returned = None\<rparr>
      else if insertError then
        \<lparr>final_store = db, issued = [(InsertConversationRow title, db)],
         toasts = [ToastError ''Failed to create conversation''], returned = None\<rparr>
      else
        \<lparr>final_store =
           db\<lparr>conversations :=
                conversations db @ [\<lparr>c_id = new_id, c_title = title, c_updated_at = now\<rparr>]\<rparr>,
         issued = [(InsertConversationRow title, db)],
         toasts = [], returned = Some new_id\<rparr>)"

definition default_title :: string where
  "default_title = ''New Conversation''"

text \<open>\<open>updateConversationTitle\<close>: one update of the row, \<open>true\<close> unless it failed.\<close>

definition updateConversationTitle ::
  "bool \<Rightarrow> nat \<Rightarrow> string \<Rightarrow> string \<Rightarrow> store \<Rightarrow> bool store_run" where
  "updateConversationTitle updateError now cid title db =
     (if updateError then
        \<lparr>final_store = db, issued = [(UpdateConversationRow cid title, db)],
         toasts = [ToastError ''Failed to update conversation''], returned = False\<rparr>
      else
        \<lparr>final_store = update_conversations_eq cid title now db,
         issued = [(UpdateConversationRow cid title, db)],
         toasts = [], returned = True\<rparr>)"

section \<open>Title of a conversation (Index.tsx)\<close>

text \<open>
  \<open>updateConversationTitleWithFirstMessage\<close>:
  \<^verbatim>\<open>const title = content.length > 30 ? content.substring(0, 30) + '...' : content;\<close>
  followed by \<open>updateConversationTitle(id, title)\<close>.
\<close>

definition updateConversationTitleWithFirstMessage ::
  "bool \<Rightarrow> nat \<Rightarrow> string \<Rightarrow> string \<Rightarrow> store \<Rightarrow> bool store_run" where
  "updateConversationTitleWithFirstMessage updateError now cid content db =
     (let title = (if length content > 30 then take 30 content @ ''...'' else content)
      in updateConversationTitle updateError now cid title db)"

definition stored_title :: "store \<Rightarrow> string \<Rightarrow> string option" where
  "stored_title db cid = map_option c_title (find (\<lambda>c. c_id c = cid) (conversations db))"

section \<open>Session controller (Index.tsx, ChatInput.tsx)\<close>

text \<open>
  The state of the component that \<open>handleSubmit\<close> reads and sets.
\<close>

datatype role = User | Assistant

record message =
  msg_id :: string
  msg_role :: role
  msg_content :: string
  msg_timestamp :: nat

record ui_state =
  isProcessing :: bool
  isTyping :: bool
  apiKeyModalOpen :: bool
  currentResponseId :: "string option"
  conversationId :: "string option"
  ui_messages :: "message list"

text \<open>
  \<open>handleSubmit\<close> is asynchronous: it runs up to an \<open>await\<close>, and later from there to the
  next one, and other handlers run in between.  One call is an activation: the point
  where it waits, and the values it closed over when it was called (\<open>conversationId\<close>,
  \<open>messages.length\<close>, and through \<open>isProcessing\<close> the test it starts with), which later
  \<open>set\<close> calls do not change for it.  The identifiers and instants it draws are arguments.
\<close>

datatype await_point =
    AwaitHasApiKey
  | AwaitCreateConversation
  | AwaitSaveUserMessage
  | AwaitUpdateTitle
  | AwaitGenerate
  | AwaitSaveAssistantMessage
  | Returned

datatype call =
    CallCreateConversation
  | CallSaveMessage string message
  | CallUpdateConversationTitleWithFirstMessage string string
  | CallGenerateStreamingResponse string
  | CallToastError string

record fresh =
  user_message_id :: string
  response_id :: string
  instant :: nat

record activation =
  waiting_at :: await_point
  a_content :: string
  a_conversationId :: "string option"
  a_messages_length :: nat
  a_fresh :: fresh

text \<open>\<open>if (isProcessing) return;\<close> and then the call of \<open>hasApiKey()\<close>.\<close>

definition handleSubmit :: "ui_state \<Rightarrow> fresh \<Rightarrow> string \<Rightarrow> activation option" where
  "handleSubmit ui fr content =
     (if isProcessing ui then None
      else Some \<lparr>waiting_at = AwaitHasApiKey, a_content = content,
                 a_conversationId = conversationId ui,
                 a_messages_length = length (ui_messages ui), a_fresh = fr\<rparr>)"

text \<open>The form of \<open>ChatInput\<close> passes the trimmed input on unless it is empty or the
  component is processing.\<close>

definition chatInput_handleSubmit :: "ui_state \<Rightarrow> fresh \<Rightarrow> string \<Rightarrow> activation option" where
  "chatInput_handleSubmit ui fr input =
     (if trim input = [] \<or> isProcessing ui then None else handleSubmit ui fr (trim input))"

definition userMessage :: "activation \<Rightarrow> message" where
  "userMessage a =
     \<lparr>msg_id = user_message_id (a_fresh a), msg_role = User, msg_content = a_content a,
      msg_timestamp = instant (a_fresh a)\<rparr>"

definition aiMessage :: "activation \<Rightarrow> string \<Rightarrow> message" where
  "aiMessage a text =
     \<lparr>msg_id = response_id (a_fresh a), msg_role = Assistant, msg_content = text,
      msg_timestamp = instant (a_fresh a)\<rparr>"

text \<open>The \<open>finally\<close> block.\<close>

definition finally_block :: "ui_state \<Rightarrow> ui_state" where
  "finally_block ui = ui\<lparr>isProcessing := False, isTyping := False\<rparr>"

text \<open>From \<open>setIsProcessing(true)\<close> to the call of \<open>generateStreamingResponse\<close>.\<close>

definition begin_streaming :: "ui_state \<Rightarrow> activation \<Rightarrow> ui_state \<times> activation \<times> call list" where
  "begin_streaming ui a =
     (ui\<lparr>isProcessing := True, isTyping := True,
         currentResponseId := Some (response_id (a_fresh a)),
         ui_messages := ui_messages ui @ [aiMessage a []]\<rparr>,
      a\<lparr>waiting_at := AwaitGenerate\<rparr>,
      [CallGenerateStreamingResponse (a_content a)])"

text \<open>From the construction of \<open>userMessage\<close> on.  \<open>conversationId\<close> is the closed-over one.\<close>

definition after_conversation :: "ui_state \<Rightarrow> activation \<Rightarrow> ui_state \<times> activation \<times> call list" where
  "after_conversation ui a =
     (let ui1 = ui\<lparr>ui_messages := ui_messages ui @ [userMessage a]\<rparr>
      in case a_conversationId a of
           Some cid \<Rightarrow>
             (ui1, a\<lparr>waiting_at := AwaitSaveUserMessage\<rparr>, [CallSaveMessage cid (userMessage a)])
         | None \<Rightarrow> begin_streaming ui1 a)"

definition resume_hasApiKey ::
  "ui_state \<Rightarrow> activation \<Rightarrow> bool \<Rightarrow> ui_state \<times> activation \<times> call list" where
  "resume_hasApiKey ui a hasKey =
     (if \<not> hasKey then (ui\<lparr>apiKeyModalOpen := True\<rparr>, a\<lparr>waiting_at := Returned\<rparr>, [])
      else case a_conversationId a of
             None \<Rightarrow> (ui, a\<lparr>waiting_at := AwaitCreateConversation\<rparr>, [CallCreateConversation])
           | Some cid \<Rightarrow> after_conversation ui a)"

definition resume_createConversation ::
  "ui_state \<Rightarrow> activation \<Rightarrow> string option \<Rightarrow> ui_state \<times> activation \<times> call list" where
  "resume_createConversation ui a newConversationId =
     (case newConversationId of
        None \<Rightarrow>
          (finally_block ui, a\<lparr>waiting_at := Returned\<rparr>,
           [CallToastError ''Failed to create conversation''])
      | Some new \<Rightarrow>
          if new = [] then
            (finally_block ui, a\<lparr>waiting_at := Returned\<rparr>,
             [CallToastError ''Failed to create conversation''])
          else after_conversation (ui\<lparr>conversationId := Some new\<rparr>) a)"

definition resume_saveUserMessage ::
  "ui_state \<Rightarrow> activation \<Rightarrow> ui_state \<times> activation \<times> call list" where
  "resume_saveUserMessage ui a =
     (case a_conversationId a of
        None \<Rightarrow> begin_streaming ui a
      | Some cid \<Rightarrow>
          if a_messages_length a = 0 then
            (ui, a\<lparr>waiting_at := AwaitUpdateTitle\<rparr>,
             [CallUpdateConversationTitleWithFirstMessage cid (a_content a)])
          else begin_streaming ui a)"

definition resume_updateTitle ::
  "ui_state \<Rightarrow> activation \<Rightarrow> ui_state \<times> activation \<times> call list" where
  "resume_updateTitle ui a = begin_streaming ui a"

text \<open>
  The stream has run: the callback has set the content of the assistant message to the
  fragments received so far after each of them; then the call has returned or thrown.
\<close>

definition resume_generate ::
  "ui_state \<Rightarrow> activation \<Rightarrow> engine_run \<Rightarrow> ui_state \<times> activation \<times> call list" where
  "resume_generate ui a run =
     (let fullResponse = concat (fragments (effects run));
          ui1 = ui\<lparr>ui_messages :=
                     map (\<lambda>msg. if msg_id msg = response_id (a_fresh a)
                                 then msg\<lparr>msg_content := fullResponse\<rparr> else msg)
                         (ui_messages ui)\<rparr>
      in case outcome run of
           Inl err \<Rightarrow>
             (finally_block ui1, a\<lparr>waiting_at := Returned\<rparr>,
              [CallToastError ''Failed to generate response. Please try again.''])
         | Inr u \<Rightarrow>
             (case a_conversationId a of
                Some cid \<Rightarrow>
                  (ui1, a\<lparr>waiting_at := AwaitSaveAssistantMessage\<rparr>,
                   [CallSaveMessage cid (aiMessage a fullResponse)])
              | None \<Rightarrow>
                  (finally_block (ui1\<lparr>currentResponseId := None\<rparr>), a\<lparr>waiting_at := Returned\<rparr>, [])))"

definition resume_saveAssistantMessage ::
  "ui_state \<Rightarrow> activation \<Rightarrow> ui_state \<times> activation \<times> call list" where
  "resume_saveAssistantMessage ui a =
     (finally_block (ui\<lparr>currentResponseId := None\<rparr>), a\<lparr>waiting_at := Returned\<rparr>, [])"

text \<open>
  The phases of a turn as the specification names them, read off the point where the
  activation waits: up to the stored user message the turn awaits persistence, then it
  streams, then it awaits the persistence of the answer.
\<close>

datatype turn_phase = Idle | AwaitingPersistUser | Streaming | AwaitingPersistAssistant

fun phase :: "await_point \<Rightarrow> turn_phase" where
  "phase AwaitHasApiKey = AwaitingPersistUser"
| "phase AwaitCreateConversation = AwaitingPersistUser"
| "phase AwaitSaveUserMessage = AwaitingPersistUser"
| "phase AwaitUpdateTitle = AwaitingPersistUser"
| "phase AwaitGenerate = Streaming"
| "phase AwaitSaveAssistantMessage = AwaitingPersistAssistant"
| "phase Returned = Idle"

section \<open>Notions used in the statements\<close>

text \<open>The extracted text is the concatenation of what the callback received.\<close>

definition text_invariant :: "stream_state \<Rightarrow> bool" where
  "text_invariant st \<longleftrightarrow> responseText st = concat (onChunk_calls st)"

text \<open>What the salvage pass makes of one match.\<close>

definition strip_match :: "string \<Rightarrow> string" where
  "strip_match m = replace_final_quote (replace_text_prefix m)"

text \<open>A string of white space.\<close>

definition blank :: "string \<Rightarrow> bool" where
  "blank s \<longleftrightarrow> list_all isWhiteSpace s"

text \<open>The shape of a match of the lenient pattern with captured text \<open>t\<close>.\<close>

definition text_field :: "string \<Rightarrow> string \<Rightarrow> bool" where
  "text_field m t \<longleftrightarrow>
     (\<exists>w1 w2. blank w1 \<and> blank w2
        \<and> m = ''\"text\"'' @ w1 @ '':'' @ w2 @ [CHR 0x22] @ t @ [CHR 0x22])
     \<and> t \<noteq> [] \<and> CHR 0x22 \<notin> set t"

text \<open>The candidates of a pass: the pieces of the buffer that are not blank, trimmed.
  The \<open>for\<close> loop reads \<open>jsonObjects\<close> only through its length and the trimmed pieces.\<close>

definition candidates :: "string \<Rightarrow> string list" where
  "candidates s = map trim (filter (\<lambda>line. trim line \<noteq> []) (split_sep s))"



section \<open>Streams of records, one to a line\<close>



text \<open>
  What stands between two records, or after the last one: white space, or white space
  around the separator \<open>,\<close> line feed, the comma at the end of the record's line.
\<close>

datatype filler = Blank string | Comma string string

fun filler_text :: "filler \<Rightarrow> string" where
  "filler_text (Blank w) = w"
| "filler_text (Comma b b') = b @ '',\<newline>'' @ b'"



text \<open>
  A stream is given by its lines: each a record, its text, and what follows the record.
\<close>

type_synonym line = "string \<times> string \<times> filler"




text \<open>
  Of the first \<open>n\<close> units of the stream: \<open>arrived\<close> counts the records that are complete,
  \<open>ready\<close> those that are complete and can be told to be: the last unit that has arrived
  is not the comma of the separator behind the record (\<open>comma_cut\<close>), whose line feed is
  still to come.
\<close>

fun comma_cut :: "filler \<Rightarrow> nat \<Rightarrow> bool" where
  "comma_cut (Blank w) j = False"
| "comma_cut (Comma b b') j = (j = Suc (length b))"

fun arrived :: "line list \<Rightarrow> nat \<Rightarrow> nat" where
  "arrived [] n = 0"
| "arrived ((r, t, f) # ls) n =
     (if n < length r then 0
      else Suc (arrived ls (n - length r - length (filler_text f))))"

fun ready :: "line list \<Rightarrow> nat \<Rightarrow> nat" where
  "ready [] n = 0"
| "ready ((r, t, f) # ls) n =
     (if n < length r then 0
      else if comma_cut f (n - length r) then 0
      else Suc (ready ls (n - length r - length (filler_text f))))"





section \<open>Example inputs\<close>

definition db0 :: store where
  "db0 = \<lparr>conversations =
            [\<lparr>c_id = ''c1'', c_title = ''New Conversation'', c_updated_at = 1\<rparr>,
             \<lparr>c_id = ''c2'', c_title = ''Other'', c_updated_at = 2\<rparr>],
          messages =
            [\<lparr>m_conversation_id = ''c1'', m_role = ''user'', m_content = ''hi'',
              m_timestamp = 1\<rparr>,
             \<lparr>m_conversation_id = ''c2'', m_role = ''user'', m_content = ''yo'',
              m_timestamp = 2\<rparr>]\<rparr>"

definition cs_unset :: credential_store where
  "cs_unset = \<lparr>GEMINI_API_KEY = [], default_api_key = None, stored_api_key = None\<rparr>"
definition cs_set :: credential_store where
  "cs_set = \<lparr>GEMINI_API_KEY = [], default_api_key = None, stored_api_key = Some ''k''\<rparr>"
definition ui_idle :: ui_state where
  "ui_idle = \<lparr>isProcessing = False, isTyping = False, apiKeyModalOpen = False,
              currentResponseId = None, conversationId = Some ''c1'', ui_messages = []\<rparr>"
definition fresh1 :: fresh where
  "fresh1 = \<lparr>user_message_id = ''u1'', response_id = ''r1'', instant = 1\<rparr>"
definition fresh2 :: fresh where
  "fresh2 = \<lparr>user_message_id = ''u2'', response_id = ''r2'', instant = 2\<rparr>"
definition hello_record :: string where
  \<open>hello_record = ''{"candidates":[{"content":{"parts":[{"text":"Hello"}]}}]}''\<close>
definition hello_chunks :: "string list" where
  \<open>hello_chunks = [''{"candidates":[{"content":{"parts":[{"te'', ''xt":"Hello"}]}}]}\<newline>'']\<close>


definition pretty_chunks :: "string list" where
  \<open>pretty_chunks =
     [''[{\<newline>  "candidates": [{"content": {"parts": [{"text": "Hel'',
      ''lo"}]}}]\<newline>}\<newline>,\<newline>{\<newline>  "candidates": [{"content": {"parts": [{"text" : " world"}]}}]\<newline>}]'']\<close>

definition error_chunks :: "string list" where
  \<open>error_chunks = [''[{"error'', '':{}}]'']\<close>

definition first_activation :: activation where
  "first_activation =
     \<lparr>waiting_at = AwaitHasApiKey, a_content = ''first'', a_conversationId = Some ''c1'',
      a_messages_length = 0, a_fresh = fresh1\<rparr>"

definition ui_after_first :: ui_state where
  "ui_after_first = ui_idle\<lparr>ui_messages := [userMessage first_activation]\<rparr>"

definition array_whole :: "string list" where
  "array_whole =
     [''['' @ hello_record @ '',\<newline>'' @ hello_record @ '',\<newline>'' @ hello_record @ '']'']"

definition array_split :: "string list" where
  "array_split =
     [''['' @ hello_record @ '',\<newline>'' @ hello_record @ '',\<newline>'', hello_record @ '']'']"

definition framed_chunk :: string where
  "framed_chunk = ''[\<newline>'' @ hello_record @ ''\<newline>]''"


definition world_record :: string where
  \<open>world_record = ''{"candidates":[{"content":{"parts":[{"text":" world"}]}}]}''\<close>


definition two_lines :: "line list" where
  "two_lines = [(hello_record, ''Hello'', Comma [] []),
                (world_record, '' world'', Blank ''\<newline>'')]"

definition two_chunks :: "string list" where
  "two_chunks = [take 40 hello_record, drop 40 hello_record @ '','',
                 ''\<newline>'' @ take 10 world_record, drop 10 world_record, ''\<newline>'']"

definition ui_new :: ui_state where
  "ui_new = \<lparr>isProcessing = False, isTyping = False, apiKeyModalOpen = False,
             currentResponseId = None, conversationId = None, ui_messages = []\<rparr>"

definition new_activation :: activation where
  "new_activation =
     \<lparr>waiting_at = AwaitHasApiKey, a_content = ''Hello'', a_conversationId = None,
      a_messages_length = 0, a_fresh = fresh1\<rparr>"

definition ui_new_streaming :: ui_state where
  "ui_new_streaming =
     \<lparr>isProcessing = True, isTyping = True, apiKeyModalOpen = False,
      currentResponseId = Some ''r1'', conversationId = Some ''c3'',
      ui_messages = [userMessage new_activation, aiMessage new_activation []]\<rparr>"

definition ui_new_done :: ui_state where
  "ui_new_done =
     \<lparr>isProcessing = False, isTyping = False, apiKeyModalOpen = False,
      currentResponseId = None, conversationId = Some ''c3'',
      ui_messages = [userMessage new_activation, aiMessage new_activation ''Hello'']\<rparr>"

section \<open>Properties of the conversation store\<close>

lemma find_map_update:
  "find (\<lambda>c. c_id c = cid)
        (map (\<lambda>c. if c_id c = cid then c\<lparr>c_title := t, c_updated_at := n\<rparr> else c) cs)
   = map_option (\<lambda>c. c\<lparr>c_title := t, c_updated_at := n\<rparr>) (find (\<lambda>c. c_id c = cid) cs)"
  by (induction cs) auto

lemma stored_title_update:
  "stored_title (update_conversations_eq cid t n db) cid
   = map_option (\<lambda>_. t) (stored_title db cid)"
  by (simp add: stored_title_def update_conversations_eq_def find_map_update
      option.map_comp comp_def)

text \<open>
  Claim C8.  Whenever \<open>deleteConversation\<close> issues the deletion of the conversation row,
  the deletion of the conversation's messages was issued before it and succeeded: the
  two calls are the whole log, in this order, and the store on which the row is deleted
  holds no message of the conversation (and still all conversation rows).
\<close>

theorem deleteConversation_messages_first:
  assumes "(DeleteConversationRow c, db')
             \<in> set (issued (deleteConversation messagesError conversationError cid db))"
  shows "c = cid \<and> \<not> messagesError
         \<and> issued (deleteConversation messagesError conversationError cid db)
             = [(DeleteMessagesOf cid, db), (DeleteConversationRow cid, db')]
         \<and> db' = delete_messages_eq cid db
         \<and> (\<forall>m \<in> set (messages db'). m_conversation_id m \<noteq> cid)
         \<and> conversations db' = conversations db"
  using assms
  by (auto simp: deleteConversation_def Let_def delete_messages_eq_def split: if_splits)

theorem deleteConversation_messages_first_witness:
  "(DeleteConversationRow ''c1'', delete_messages_eq ''c1'' db0)
     \<in> set (issued (deleteConversation False False ''c1'' db0))
   \<and> issued (deleteConversation False False ''c1'' db0)
       = [(DeleteMessagesOf ''c1'', db0),
          (DeleteConversationRow ''c1'', delete_messages_eq ''c1'' db0)]
   \<and> messages (delete_messages_eq ''c1'' db0)
       = [\<lparr>m_conversation_id = ''c2'', m_role = ''user'', m_content = ''yo'',
           m_timestamp = 2\<rparr>]"
proof -
  have h: "(DeleteConversationRow ''c1'', delete_messages_eq ''c1'' db0)
     \<in> set (issued (deleteConversation False False ''c1'' db0))"
    by (simp add: deleteConversation_def Let_def)
  have m: "messages (delete_messages_eq ''c1'' db0)
       = [\<lparr>m_conversation_id = ''c2'', m_role = ''user'', m_content = ''yo'',
           m_timestamp = 2\<rparr>]"
    by (simp add: delete_messages_eq_def db0_def)
  from deleteConversation_messages_first [OF h] h m show ?thesis by blast
qed

text \<open>
  Claim C10.  If deleting the messages fails, \<open>deleteConversation\<close> leaves the store as it
  was, never issues the deletion of the conversation row, and returns \<open>false\<close> (it returns
  a value in every case: the \<open>catch\<close> covers both calls).  It returns \<open>true\<close> exactly when
  neither deletion failed.
\<close>

theorem deleteConversation_atomic:
  "(messagesError \<longrightarrow>
      final_store (deleteConversation messagesError conversationError cid db) = db
      \<and> (\<forall>x \<in> set (issued (deleteConversation messagesError conversationError cid db)).
            fst x \<noteq> DeleteConversationRow cid)
      \<and> returned (deleteConversation messagesError conversationError cid db) = False)
   \<and> (returned (deleteConversation messagesError conversationError cid db) = True
        \<longleftrightarrow> \<not> messagesError \<and> \<not> conversationError)"
  by (simp add: deleteConversation_def Let_def)

theorem deleteConversation_atomic_witness:
  "final_store (deleteConversation True False ''c1'' db0) = db0
   \<and> issued (deleteConversation True False ''c1'' db0) = [(DeleteMessagesOf ''c1'', db0)]
   \<and> returned (deleteConversation True False ''c1'' db0) = False
   \<and> returned (deleteConversation False False ''c1'' db0) = True
   \<and> returned (deleteConversation False True ''c1'' db0) = False"
  using deleteConversation_atomic [of True False "''c1''" db0]
        deleteConversation_atomic [of False False "''c1''" db0]
        deleteConversation_atomic [of False True "''c1''" db0]
  by (simp add: deleteConversation_def)

text \<open>
  The derivation of the title.  When \<open>updateConversationTitleWithFirstMessage\<close> runs for
  an existing conversation and the update succeeds, the stored title is the message itself
  if it has at most 30 units, and its first 30 units followed by \<open>...\<close> otherwise; a
  message of exactly 30 units is stored as it is.  Whether \<open>handleSubmit\<close> gets there for
  a first message is another matter, see the section on the title of a new conversation.
\<close>

lemma title_derivation:
  assumes "\<not> updateError" and "stored_title db cid \<noteq> None"
  shows "stored_title
           (final_store (updateConversationTitleWithFirstMessage updateError now cid content db))
           cid
         = Some (if length content \<le> 30 then content else take 30 content @ ''...'')"
  using assms
  by (auto simp: updateConversationTitleWithFirstMessage_def updateConversationTitle_def
      stored_title_update Let_def)

lemma title_derivation_witness:
  "stored_title db0 ''c1'' \<noteq> None
   \<and> stored_title (final_store (updateConversationTitleWithFirstMessage False 7 ''c1''
        ''123456789012345678901234567890'' db0)) ''c1''
       = Some ''123456789012345678901234567890''
   \<and> stored_title (final_store (updateConversationTitleWithFirstMessage False 7 ''c1''
        ''1234567890123456789012345678901'' db0)) ''c1''
       = Some ''123456789012345678901234567890...''"
proof -
  have h: "stored_title db0 ''c1'' \<noteq> None" by (simp add: stored_title_def db0_def)
  have n: "\<not> False" by simp
  from title_derivation [OF n h, of 7 "''123456789012345678901234567890''"]
       title_derivation [OF n h, of 7 "''1234567890123456789012345678901''"] h
  show ?thesis by simp
qed

section \<open>Lemmas on the parse loop and the salvage pass\<close>

lemma loop_body_text_invariant:
  "text_invariant st \<Longrightarrow> text_invariant (loop_body dec js i st)"
  by (simp add: loop_body_def text_invariant_def Let_def split: option.splits)

lemma fold_loop_body_text_invariant:
  "text_invariant st \<Longrightarrow> text_invariant (fold (loop_body dec js) is st)"
  by (induction "is" arbitrary: st) (simp_all add: loop_body_text_invariant)

lemma process_chunk_text_invariant:
  "text_invariant st \<Longrightarrow> text_invariant (process_chunk dec chunk st)"
  unfolding process_chunk_def Let_def
  by (rule fold_loop_body_text_invariant) (simp add: text_invariant_def)

lemma fold_process_chunk_text_invariant:
  "text_invariant st \<Longrightarrow> text_invariant (fold (process_chunk dec) chunks st)"
  by (induction chunks arbitrary: st) (simp_all add: process_chunk_text_invariant)

lemma read_loop_text_invariant: "text_invariant (read_loop dec chunks)"
  unfolding read_loop_def
  by (rule fold_process_chunk_text_invariant) (simp add: text_invariant_def initial_state_def)

lemma salvage_fold:
  "fold (\<lambda>match s.
                let text = replace_final_quote (replace_text_prefix match)
                in s\<lparr>responseText := responseText s @ text,
                     onChunk_calls := onChunk_calls s @ [text]\<rparr>) ms st
   = st\<lparr>responseText := responseText st @ concat (map strip_match ms),
        onChunk_calls := onChunk_calls st @ map strip_match ms\<rparr>"
  by (induction ms arbitrary: st) (simp_all add: strip_match_def Let_def)

lemma salvage_eq:
  "salvage st =
     (if responseText st = [] then
        st\<lparr>responseText := responseText st @ concat (map strip_match (match_global 0 (fullJsonStr st))),
           onChunk_calls := onChunk_calls st @ map strip_match (match_global 0 (fullJsonStr st))\<rparr>
      else st)"
  by (simp add: salvage_def salvage_fold)

lemma salvage_text_invariant: "text_invariant st \<Longrightarrow> text_invariant (salvage st)"
  by (simp add: salvage_eq text_invariant_def)

lemma fragments_map_OnChunk: "fragments (map OnChunk ts @ es) = ts @ fragments es"
  by (induction ts) simp_all

lemma fragments_run:
  "apiKey \<noteq> [] \<Longrightarrow>
   fragments (effects (generateStreamingResponseWith dec apiKey (stream_of chunks)))
   = onChunk_calls (salvage (read_loop dec chunks))
     @ (if responseText (salvage (read_loop dec chunks)) = [] then [fallbackResponse] else [])"
  by (simp add: generateStreamingResponseWith_def stream_of_def Let_def fragments_map_OnChunk)

lemma fallback_general:
  assumes "apiKey \<noteq> []"
  shows "(onChunk_calls (salvage (read_loop dec chunks)) = [] \<longrightarrow>
            fragments (effects (generateStreamingResponseWith dec apiKey (stream_of chunks)))
            = [fallbackResponse])
       \<and> ((\<exists>t \<in> set (onChunk_calls (salvage (read_loop dec chunks))). t \<noteq> []) \<longrightarrow>
            fragments (effects (generateStreamingResponseWith dec apiKey (stream_of chunks)))
            = onChunk_calls (salvage (read_loop dec chunks)))"
proof -
  have inv: "text_invariant (salvage (read_loop dec chunks))"
    by (simp add: salvage_text_invariant read_loop_text_invariant)
  show ?thesis
    using inv by (auto simp: fragments_run [OF assms] text_invariant_def)
qed

lemma fallbackResponse_nonempty: "fallbackResponse \<noteq> []"
  by (simp add: fallbackResponse_def)

lemma response_never_empty:
  assumes "apiKey \<noteq> []"
  shows "concat (fragments (effects (generateStreamingResponseWith dec apiKey (stream_of chunks))))
         \<noteq> []"
proof (cases "responseText (salvage (read_loop dec chunks)) = []")
  case True
  then show ?thesis by (simp add: fragments_run [OF assms] fallbackResponse_nonempty)
next
  case False
  have "text_invariant (salvage (read_loop dec chunks))"
    by (simp add: salvage_text_invariant read_loop_text_invariant)
  with False show ?thesis by (simp add: fragments_run [OF assms] text_invariant_def)
qed

text \<open>A pass that calls the callback not at all changes nothing but the buffer, which
  grows by the chunk.\<close>

lemma loop_body_calls:
  "loop_body dec js i st = st
   \<or> length (onChunk_calls (loop_body dec js i st)) = Suc (length (onChunk_calls st))"
  by (simp add: loop_body_def Let_def split: option.splits)

lemma fold_loop_body_mono:
  "length (onChunk_calls st) \<le> length (onChunk_calls (fold (loop_body dec js) is st))"
proof (induction "is" arbitrary: st)
  case Nil
  show ?case by simp
next
  case (Cons i "is")
  have "length (onChunk_calls st) \<le> length (onChunk_calls (loop_body dec js i st))"
    using loop_body_calls [of dec js i st] by auto
  also have "\<dots> \<le> length (onChunk_calls (fold (loop_body dec js) is (loop_body dec js i st)))"
    by (rule Cons.IH)
  finally show ?case by simp
qed

lemma fold_loop_body_silent:
  "onChunk_calls (fold (loop_body dec js) is st) = [] \<Longrightarrow> fold (loop_body dec js) is st = st"
proof (induction "is" arbitrary: st)
  case Nil
  show ?case by simp
next
  case (Cons i "is")
  from Cons.prems have e: "onChunk_calls (fold (loop_body dec js) is (loop_body dec js i st)) = []"
    by simp
  with fold_loop_body_mono [of "loop_body dec js i st" dec js "is"]
  have "onChunk_calls (loop_body dec js i st) = []" by simp
  with loop_body_calls [of dec js i st] have "loop_body dec js i st = st" by auto
  with Cons.IH [OF e] show ?case by simp
qed

lemma process_chunk_mono:
  "length (onChunk_calls st) \<le> length (onChunk_calls (process_chunk dec chunk st))"
  unfolding process_chunk_def Let_def
  using fold_loop_body_mono [of "st\<lparr>fullJsonStr := fullJsonStr st @ chunk\<rparr>"] by simp

lemma process_chunk_silent:
  "onChunk_calls (process_chunk dec chunk st) = [] \<Longrightarrow>
   process_chunk dec chunk st = st\<lparr>fullJsonStr := fullJsonStr st @ chunk\<rparr>"
  unfolding process_chunk_def Let_def by (rule fold_loop_body_silent)

lemma fold_process_chunk_mono:
  "length (onChunk_calls st) \<le> length (onChunk_calls (fold (process_chunk dec) chunks st))"
proof (induction chunks arbitrary: st)
  case Nil
  show ?case by simp
next
  case (Cons c chunks)
  have "length (onChunk_calls st) \<le> length (onChunk_calls (process_chunk dec c st))"
    by (rule process_chunk_mono)
  also have "\<dots> \<le> length (onChunk_calls (fold (process_chunk dec) chunks (process_chunk dec c st)))"
    by (rule Cons.IH)
  finally show ?case by simp
qed

lemma fold_process_chunk_silent:
  "onChunk_calls (fold (process_chunk dec) chunks st) = [] \<Longrightarrow>
   fold (process_chunk dec) chunks st = st\<lparr>fullJsonStr := fullJsonStr st @ concat chunks\<rparr>"
proof (induction chunks arbitrary: st)
  case Nil
  show ?case by simp
next
  case (Cons c chunks)
  from Cons.prems have e: "onChunk_calls (fold (process_chunk dec) chunks (process_chunk dec c st)) = []"
    by simp
  with fold_process_chunk_mono [of "process_chunk dec c st" dec chunks]
  have "onChunk_calls (process_chunk dec c st) = []" by simp
  then have "process_chunk dec c st = st\<lparr>fullJsonStr := fullJsonStr st @ c\<rparr>"
    by (rule process_chunk_silent)
  with Cons.IH [OF e] show ?case by simp
qed

lemma read_loop_silent:
  "onChunk_calls (read_loop dec chunks) = [] \<Longrightarrow>
   read_loop dec chunks = \<lparr>fullJsonStr = concat chunks, responseText = [], onChunk_calls = []\<rparr>"
  unfolding read_loop_def
  by (drule fold_process_chunk_silent) (simp add: initial_state_def)

text \<open>The matches of the lenient pattern.\<close>

lemma blank_takeWhile: "blank w \<Longrightarrow> \<not> isWhiteSpace x \<Longrightarrow> takeWhile isWhiteSpace (w @ x # l) = w"
  by (simp add: blank_def list_all_iff takeWhile_tail)

lemma blank_dropWhile: "blank w \<Longrightarrow> \<not> isWhiteSpace x \<Longrightarrow> dropWhile isWhiteSpace (w @ x # l) = x # l"
  by (simp add: blank_def list_all_iff dropWhile_append2)

lemma drop_text_prefix:
  "drop (8 + length w1 + length w2) (''\"text\"'' @ w1 @ '':'' @ w2 @ [CHR 0x22] @ rest) = rest"
  by (simp add: drop_Cons')

lemma take_text_prefix:
  "take (8 + length w1 + length w2 + k) (''\"text\"'' @ w1 @ '':'' @ w2 @ [CHR 0x22] @ rest)
   = ''\"text\"'' @ w1 @ '':'' @ w2 @ [CHR 0x22] @ take k rest"
  by (simp add: take_Cons')

lemma text_prefix_len_intro:
  assumes "blank w1" and "blank w2"
  shows "text_prefix_len (''\"text\"'' @ w1 @ '':'' @ w2 @ [CHR 0x22] @ rest)
         = Some (8 + length w1 + length w2)"
proof -
  have c: "\<not> isWhiteSpace (CHR '':'')" and q: "\<not> isWhiteSpace (CHR 0x22)"
    by (simp_all add: isWhiteSpace_def)
  have d1: "dropWhile isWhiteSpace (w1 @ CHR '':'' # w2 @ CHR 0x22 # rest) = CHR '':'' # w2 @ CHR 0x22 # rest"
    by (rule blank_dropWhile [OF assms(1) c])
  have t1: "takeWhile isWhiteSpace (w1 @ CHR '':'' # w2 @ CHR 0x22 # rest) = w1"
    by (rule blank_takeWhile [OF assms(1) c])
  have d2: "dropWhile isWhiteSpace (w2 @ CHR 0x22 # rest) = CHR 0x22 # rest"
    by (rule blank_dropWhile [OF assms(2) q])
  have t2: "takeWhile isWhiteSpace (w2 @ CHR 0x22 # rest) = w2"
    by (rule blank_takeWhile [OF assms(2) q])
  show ?thesis
    by (simp add: text_prefix_len_def Let_def d1 t1 d2 t2)
qed

lemma text_prefix_len_Some:
  assumes "text_prefix_len s = Some n"
  shows "\<exists>w1 w2 rest. s = ''\"text\"'' @ w1 @ '':'' @ w2 @ [CHR 0x22] @ rest
            \<and> blank w1 \<and> blank w2 \<and> n = 8 + length w1 + length w2"
proof -
  from assms have p: "prefix ''\"text\"'' s"
    by (simp add: text_prefix_len_def split: if_splits)
  then obtain s1 where s: "s = ''\"text\"'' @ s1" by (auto simp: prefix_def)
  define w1 where "w1 = takeWhile isWhiteSpace s1"
  have b1: "blank w1" by (auto simp: w1_def blank_def list_all_iff dest: set_takeWhileD)
  from assms p s obtain s3 where d1: "dropWhile isWhiteSpace s1 = CHR '':'' # s3"
    by (auto simp: text_prefix_len_def Let_def split: if_splits list.splits)
  define w2 where "w2 = takeWhile isWhiteSpace s3"
  have b2: "blank w2" by (auto simp: w2_def blank_def list_all_iff dest: set_takeWhileD)
  from assms p s d1 obtain s5 where d2: "dropWhile isWhiteSpace s3 = CHR 0x22 # s5"
    and n: "n = 8 + length w1 + length w2"
    by (auto simp: text_prefix_len_def Let_def w1_def w2_def split: if_splits list.splits)
  have "s1 = w1 @ dropWhile isWhiteSpace s1" by (simp add: w1_def)
  moreover have "s3 = w2 @ dropWhile isWhiteSpace s3" by (simp add: w2_def)
  ultimately have "s = ''\"text\"'' @ w1 @ '':'' @ w2 @ [CHR 0x22] @ s5"
    using s d1 d2 by simp
  with b1 b2 n show ?thesis by blast
qed

lemma text_match_len_Some:
  assumes "text_match_len s = Some k"
  shows "\<exists>t. text_field (take k s) t \<and> k \<le> length s \<and> 0 < k"
proof -
  from assms obtain n where n: "text_prefix_len s = Some n"
    by (auto simp: text_match_len_def split: option.splits)
  from text_prefix_len_Some [OF n] obtain w1 w2 rest where
    s: "s = ''\"text\"'' @ w1 @ '':'' @ w2 @ [CHR 0x22] @ rest"
    and b: "blank w1" "blank w2" and nn: "n = 8 + length w1 + length w2" by blast
  define t where "t = takeWhile (\<lambda>c. c \<noteq> CHR 0x22) rest"
  have dr: "drop n s = rest" by (subst s) (simp only: nn drop_text_prefix)
  from assms n dr have t0: "t \<noteq> []" and lt: "n + length t < length s" and k: "k = n + length t + 1"
    by (auto simp: text_match_len_def Let_def t_def split: if_splits)
  have nq: "CHR 0x22 \<notin> set t" unfolding t_def by (auto dest: set_takeWhileD)
  have "length rest = length s - n" using dr length_drop [of n s] by simp
  with lt have ll: "length t < length rest" by simp
  have td: "t @ dropWhile (\<lambda>c. c \<noteq> CHR 0x22) rest = rest"
    unfolding t_def by (rule takeWhile_dropWhile_id)
  have dne: "dropWhile (\<lambda>c. c \<noteq> CHR 0x22) rest \<noteq> []"
  proof
    assume "dropWhile (\<lambda>c. c \<noteq> CHR 0x22) rest = []"
    with td have "t = rest" by simp
    with ll show False by simp
  qed
  from hd_dropWhile [OF dne] have "hd (dropWhile (\<lambda>c. c \<noteq> CHR 0x22) rest) = CHR 0x22" by simp
  with dne obtain r2 where r2: "dropWhile (\<lambda>c. c \<noteq> CHR 0x22) rest = CHR 0x22 # r2"
    by (cases "dropWhile (\<lambda>c. c \<noteq> CHR 0x22) rest") auto
  have "rest = t @ CHR 0x22 # r2" using td r2 by simp
  then have "take (length t + 1) rest = t @ [CHR 0x22]" by simp
  moreover have "k = 8 + length w1 + length w2 + (length t + 1)" using k nn by simp
  ultimately have "take k s = ''\"text\"'' @ w1 @ '':'' @ w2 @ [CHR 0x22] @ t @ [CHR 0x22]"
    by (subst s) (simp only: take_text_prefix)
  with b t0 nq have "text_field (take k s) t" unfolding text_field_def by blast
  moreover have "k \<le> length s" using lt k by simp
  ultimately show ?thesis using k by auto
qed

lemma strip_match_text_field:
  assumes "text_field m t"
  shows "strip_match m = t"
proof -
  from assms obtain w1 w2 where b: "blank w1" "blank w2"
    and m: "m = ''\"text\"'' @ w1 @ '':'' @ w2 @ [CHR 0x22] @ t @ [CHR 0x22]"
    unfolding text_field_def by blast
  have p: "text_prefix_len m = Some (8 + length w1 + length w2)"
    unfolding m by (rule text_prefix_len_intro [OF b])
  have "replace_text_prefix m = drop (8 + length w1 + length w2) m"
    using p by (cases m) (simp_all add: m)
  also have "\<dots> = t @ [CHR 0x22]" unfolding m by (rule drop_text_prefix)
  finally show ?thesis by (simp add: strip_match_def replace_final_quote_def)
qed

lemma match_global_sound:
  "m \<in> set (match_global skip s) \<Longrightarrow> sublist m s \<and> (\<exists>t. text_field m t)"
proof (induction skip s rule: match_global.induct)
  case (1 skip)
  then show ?case by simp
next
  case (2 skip c cs)
  show ?case
  proof (cases "0 < skip")
    case True
    with 2 have "sublist m cs \<and> (\<exists>t. text_field m t)" by simp
    then show ?thesis by (auto simp: sublist_Cons_right)
  next
    case False
    show ?thesis
    proof (cases "text_match_len (c # cs)")
      case None
      with False 2 have "sublist m cs \<and> (\<exists>t. text_field m t)" by simp
      then show ?thesis by (auto simp: sublist_Cons_right)
    next
      case (Some n)
      from 2(4) False Some have "m = take n (c # cs) \<or> m \<in> set (match_global (n - 1) cs)" by simp
      then show ?thesis
      proof
        assume e: "m = take n (c # cs)"
        from text_match_len_Some [OF Some] obtain t where "text_field (take n (c # cs)) t" by blast
        moreover have "sublist (take n (c # cs)) (c # cs)"
          by (rule prefix_imp_sublist) (rule take_is_prefix)
        ultimately show ?thesis using e by blast
      next
        assume "m \<in> set (match_global (n - 1) cs)"
        with 2(3) [OF False Some] have "sublist m cs \<and> (\<exists>t. text_field m t)" by simp
        then show ?thesis by (auto simp: sublist_Cons_right)
      qed
    qed
  qed
qed


section \<open>Lines and candidates\<close>

text \<open>Splitting, trimming and searching.\<close>

lemma split_sep_nonempty: "split_sep s \<noteq> []"
  by (induction s rule: split_sep.induct) (auto split: list.splits)

lemma split_sep_Cons:
  "split_sep (c # s) =
     (if c = CHR '','' \<and> s \<noteq> [] \<and> hd s = CHR 0x0A then [] # split_sep (tl s)
      else if c = CHR 0x0A then [] # split_sep s
      else (c # hd (split_sep s)) # tl (split_sep s))"
proof (cases s)
  case Nil
  then show ?thesis by simp
next
  case (Cons d cs)
  with split_sep_nonempty [of "d # cs"] show ?thesis
    by (cases "split_sep (d # cs)") auto
qed















section \<open>A record is not the beginning of another candidate\<close>









lemma push_value_complete:
  "push_value v st = Some (Complete w, st') \<Longrightarrow> w = v \<and> st = [] \<and> st' = []"
  by (cases "(v, st)" rule: push_value.cases) auto

lemma begin_value_complete_obj: "begin_value t st \<noteq> Some (Complete (JObj kvs), st')"
  by (cases "(t, st)" rule: begin_value.cases) (auto dest: push_value_complete)

lemma close_array_complete_obj: "close_array st \<noteq> Some (Complete (JObj kvs), st')"
  by (cases st rule: close_array.cases) (auto dest: push_value_complete)










section \<open>The parse loop on a stream of records\<close>















lemma trim_Nil: "trim [] = []"
  by (simp add: trim_def)

lemma split_sep_lf: "split_sep (CHR 0x0A # Y) = [] # split_sep Y"
  by (simp add: split_sep_Cons)

lemma split_sep_comma_lf: "split_sep (CHR '','' # CHR 0x0A # Y) = [] # split_sep Y"
  by simp

lemma candidates_lf: "candidates (CHR 0x0A # Y) = candidates Y"
  by (simp add: candidates_def split_sep_lf trim_Nil)












































section \<open>The salvage pass and the fallback\<close>

text \<open>
  Claim C4.  In a run with a credential whose stream ends regularly and whose parse loop
  never called the callback, the buffer at the end is the whole stream, and if the lenient
  pattern matches in it, the fragments delivered are exactly the captured texts of the
  matches, in the order of the matches: every match is a piece of the stream of the form
  \<open>"text"\<close>, white space, a colon, white space, and the captured text, non-empty and
  free of quotes, between two quotes.
\<close>

theorem salvage_pass:
  assumes "fst (getApiKey cs) \<noteq> []"
    and "onChunk_calls (read_loop decodeRecord chunks) = []"
    and "match_global 0 (fullJsonStr (read_loop decodeRecord chunks)) \<noteq> []"
  shows "fullJsonStr (read_loop decodeRecord chunks) = concat chunks
       \<and> fragments (effects (generateStreamingResponse cs (stream_of chunks)))
           = map strip_match (match_global 0 (concat chunks))
       \<and> (\<forall>m \<in> set (match_global 0 (concat chunks)).
             sublist m (concat chunks) \<and> text_field m (strip_match m))"
proof -
  let ?ms = "match_global 0 (concat chunks)"
  have st: "read_loop decodeRecord chunks
            = \<lparr>fullJsonStr = concat chunks, responseText = [], onChunk_calls = []\<rparr>"
    by (rule read_loop_silent [OF assms(2)])
  have sound: "\<forall>m \<in> set ?ms. sublist m (concat chunks) \<and> text_field m (strip_match m)"
  proof
    fix m assume "m \<in> set ?ms"
    from match_global_sound [OF this] obtain t
      where "sublist m (concat chunks)" and t: "text_field m t" by blast
    with strip_match_text_field [OF t]
    show "sublist m (concat chunks) \<and> text_field m (strip_match m)" by simp
  qed
  from assms(3) st obtain m ms where ms: "?ms = m # ms" by (cases ?ms) auto
  with sound have "text_field m (strip_match m)" by simp
  then have "strip_match m \<noteq> []" by (simp add: text_field_def)
  then have "concat (map strip_match (m # ms)) \<noteq> []" by simp
  then have ne: "concat (map strip_match ?ms) \<noteq> []" unfolding ms .
  have sv: "salvage (read_loop decodeRecord chunks)
            = \<lparr>fullJsonStr = concat chunks, responseText = concat (map strip_match ?ms),
               onChunk_calls = map strip_match ?ms\<rparr>"
    by (simp add: st salvage_eq)
  have "fragments (effects (generateStreamingResponse cs (stream_of chunks)))
        = map strip_match ?ms"
    unfolding generateStreamingResponse_def
    using ne by (simp add: fragments_run [OF assms(1)] sv)
  with st sound show ?thesis by simp
qed

theorem salvage_pass_witness:
  "fst (getApiKey cs_set) \<noteq> []
   \<and> onChunk_calls (read_loop decodeRecord pretty_chunks) = []
   \<and> match_global 0 (fullJsonStr (read_loop decodeRecord pretty_chunks)) \<noteq> []
   \<and> fragments (effects (generateStreamingResponse cs_set (stream_of pretty_chunks)))
       = map strip_match (match_global 0 (concat pretty_chunks))
   \<and> map strip_match (match_global 0 (concat pretty_chunks)) = [''Hello'', '' world'']"
proof -
  have k: "fst (getApiKey cs_set) \<noteq> []" by (simp add: getApiKey_def cs_set_def)
  have n: "onChunk_calls (read_loop decodeRecord pretty_chunks) = []" by code_simp
  have m: "match_global 0 (fullJsonStr (read_loop decodeRecord pretty_chunks)) \<noteq> []" by code_simp
  have v: "map strip_match (match_global 0 (concat pretty_chunks)) = [''Hello'', '' world'']"
    by code_simp
  from salvage_pass [OF k n m] k n m v show ?thesis by blast
qed

text \<open>
  Claim C5.  In a run with a credential whose stream ends regularly: if neither the parse
  loop nor the salvage pass called the callback, exactly one fragment is delivered, the
  fixed fallback notice; if they delivered any non-empty text, the fragments delivered are
  theirs and no fallback notice is added.  In either case the fragments delivered do not
  add up to the empty string.
\<close>

theorem fallback_guarantee:
  assumes "fst (getApiKey cs) \<noteq> []"
  shows "(onChunk_calls (salvage (read_loop decodeRecord chunks)) = [] \<longrightarrow>
            fragments (effects (generateStreamingResponse cs (stream_of chunks)))
            = [fallbackResponse])
       \<and> ((\<exists>t \<in> set (onChunk_calls (salvage (read_loop decodeRecord chunks))). t \<noteq> []) \<longrightarrow>
            fragments (effects (generateStreamingResponse cs (stream_of chunks)))
            = onChunk_calls (salvage (read_loop decodeRecord chunks)))
       \<and> concat (fragments (effects (generateStreamingResponse cs (stream_of chunks)))) \<noteq> []"
  unfolding generateStreamingResponse_def
  using fallback_general [OF assms, of decodeRecord chunks]
        response_never_empty [OF assms, of decodeRecord chunks]
  by blast

theorem fallback_guarantee_witness:
  "fst (getApiKey cs_set) \<noteq> []
   \<and> onChunk_calls (salvage (read_loop decodeRecord error_chunks)) = []
   \<and> fragments (effects (generateStreamingResponse cs_set (stream_of error_chunks)))
       = [fallbackResponse]
   \<and> (\<exists>t \<in> set (onChunk_calls (salvage (read_loop decodeRecord hello_chunks))). t \<noteq> [])
   \<and> fragments (effects (generateStreamingResponse cs_set (stream_of hello_chunks))) = [''Hello'']"
proof -
  have k: "fst (getApiKey cs_set) \<noteq> []" by (simp add: getApiKey_def cs_set_def)
  have n: "onChunk_calls (salvage (read_loop decodeRecord error_chunks)) = []"
    by code_simp
  have h: "onChunk_calls (salvage (read_loop decodeRecord hello_chunks)) = [''Hello'']"
    by code_simp
  then have e: "\<exists>t \<in> set (onChunk_calls (salvage (read_loop decodeRecord hello_chunks))). t \<noteq> []"
    by simp
  from fallback_guarantee [OF k, of error_chunks]
       fallback_guarantee [OF k, of hello_chunks] k n h e
  show ?thesis by simp
qed

section \<open>The missing credential\<close>

text \<open>
  Claim C6.  When the credential resolves to the empty string,
  \<open>generateStreamingResponse\<close> fails with the missing-credential error, without a request
  to the generation endpoint and without a fragment delivered; \<open>hasApiKey\<close> is false, and
  a submission that \<open>handleSubmit\<close> accepts opens the credential prompt and returns, with
  no call that stores or sends the message.
\<close>

theorem missing_credential:
  assumes "fst (getApiKey cs) = []"
  shows "outcome (generateStreamingResponse cs answer) = Inl ApiKeyNotSet
       \<and> \<not> fetched (effects (generateStreamingResponse cs answer))
       \<and> fragments (effects (generateStreamingResponse cs answer)) = []
       \<and> \<not> hasApiKey cs
       \<and> (\<forall>a. handleSubmit ui fr content = Some a \<longrightarrow>
             resume_hasApiKey ui a (hasApiKey cs)
             = (ui\<lparr>apiKeyModalOpen := True\<rparr>, a\<lparr>waiting_at := Returned\<rparr>, []))"
  using assms
  by (simp add: generateStreamingResponse_def generateStreamingResponseWith_def hasApiKey_def
      resume_hasApiKey_def)

theorem missing_credential_witness:
  "fst (getApiKey cs_unset) = []
   \<and> outcome (generateStreamingResponse cs_unset (stream_of hello_chunks)) = Inl ApiKeyNotSet
   \<and> \<not> fetched (effects (generateStreamingResponse cs_unset (stream_of hello_chunks)))
   \<and> fragments (effects (generateStreamingResponse cs_unset (stream_of hello_chunks))) = []
   \<and> \<not> hasApiKey cs_unset
   \<and> handleSubmit ui_idle fresh1 ''first'' = Some first_activation
   \<and> resume_hasApiKey ui_idle first_activation (hasApiKey cs_unset)
       = (ui_idle\<lparr>apiKeyModalOpen := True\<rparr>, first_activation\<lparr>waiting_at := Returned\<rparr>, [])"
proof -
  have h: "fst (getApiKey cs_unset) = []" by (simp add: getApiKey_def cs_unset_def)
  have s: "handleSubmit ui_idle fresh1 ''first'' = Some first_activation"
    by (simp add: handleSubmit_def ui_idle_def first_activation_def)
  from missing_credential [OF h, of "stream_of hello_chunks" ui_idle fresh1 "''first''"] h s
  show ?thesis by blast
qed

section \<open>The busy guard\<close>

text \<open>While \<open>isProcessing\<close> is set, that is from the start of streaming to the end of the
  turn, both handlers reject a submission.\<close>

lemma busy_guard_while_processing:
  "isProcessing ui \<Longrightarrow>
   handleSubmit ui fr content = None \<and> chatInput_handleSubmit ui fr content = None"
  by (simp add: handleSubmit_def chatInput_handleSubmit_def)

lemma begin_streaming_busy:
  "begin_streaming ui a = (ui', a', calls) \<Longrightarrow>
   isProcessing ui' \<and> phase (waiting_at a') = Streaming"
  by (auto simp: begin_streaming_def)

lemma resume_generate_busy:
  "isProcessing ui \<Longrightarrow> resume_generate ui a run = (ui', a', calls) \<Longrightarrow>
   waiting_at a' = AwaitSaveAssistantMessage \<Longrightarrow> isProcessing ui'"
  by (auto simp: resume_generate_def Let_def finally_block_def split: sum.splits option.splits)

text \<open>
  Claim C7.  A turn that awaits the persistence of its user message is not idle, and yet
  a second submission is accepted: \<open>isProcessing\<close> is only set after \<open>saveMessage\<close> and
  the title update have been awaited.  Here a first submission in an idle session with a
  conversation has passed the key check and waits for \<open>saveMessage\<close>; the second
  submission starts an activation of its own, through \<open>ChatInput\<close> as well.
\<close>

theorem busy_guard_gap:
  "handleSubmit ui_idle fresh1 ''first'' = Some first_activation
   \<and> resume_hasApiKey ui_idle first_activation True
       = (ui_after_first, first_activation\<lparr>waiting_at := AwaitSaveUserMessage\<rparr>,
          [CallSaveMessage ''c1'' (userMessage first_activation)])
   \<and> phase AwaitSaveUserMessage = AwaitingPersistUser
   \<and> handleSubmit ui_after_first fresh2 ''second''
       = Some \<lparr>waiting_at = AwaitHasApiKey, a_content = ''second'',
               a_conversationId = Some ''c1'', a_messages_length = 1, a_fresh = fresh2\<rparr>
   \<and> chatInput_handleSubmit ui_after_first fresh2 ''second''
       = handleSubmit ui_after_first fresh2 ''second''"
  by (simp add: handleSubmit_def chatInput_handleSubmit_def resume_hasApiKey_def
      after_conversation_def first_activation_def ui_after_first_def ui_idle_def
      trim_def isWhiteSpace_def Let_def)

text \<open>
  A remark on the conversation that a submission creates itself.  The activation keeps
  the \<open>conversationId\<close> it was called with, so after \<open>createConversation\<close> it goes on to
  the stream at once: of the calls that follow the creation, none stores the message or
  derives the title.
\<close>

lemma new_conversation_not_persisted:
  assumes "a_conversationId a = None" and "new \<noteq> []"
  shows "resume_createConversation ui a (Some new)
         = begin_streaming (ui\<lparr>conversationId := Some new,
                               ui_messages := ui_messages ui @ [userMessage a]\<rparr>) a"
    and "snd (snd (resume_createConversation ui a (Some new)))
         = [CallGenerateStreamingResponse (a_content a)]"
  using assms
  by (simp_all add: resume_createConversation_def after_conversation_def begin_streaming_def)

section \<open>The parse loop on concrete streams\<close>

text \<open>
  Claim C1.  The same stream, an array of three equal records, one to a line, delivers
  \<open>Hello\<close> once when it arrives in one chunk and twice when it arrives in two: the first
  line \<open>[{...}\<close> does not parse and stays, \<open>indexOf\<close> finds the record of the second
  line inside it, and the cut keeps the second line, which the next pass decodes again.
\<close>

theorem chunking_dependence:
  "concat array_split = concat array_whole
   \<and> concat (fragments (effects (generateStreamingResponse cs_set (stream_of array_whole))))
       = ''Hello''
   \<and> concat (fragments (effects (generateStreamingResponse cs_set (stream_of array_split))))
       = ''HelloHello''"
  by code_simp

text \<open>
  Claim C3.  One chunk holding \<open>[\<close>, a record and \<open>]\<close> on three lines: the first line
  does not decode, the record does, and the buffer is cut after the record, so that the
  first line and its separator are gone although they were never decoded.
\<close>

theorem undecoded_prefix_discarded:
  "read_loop decodeRecord [framed_chunk]
     = \<lparr>fullJsonStr = '']'', responseText = ''Hello'', onChunk_calls = [''Hello'']\<rparr>
   \<and> decodeRecord ''['' = None
   \<and> filter (\<lambda>line. trim line \<noteq> []) (split_sep framed_chunk) = [''['', hello_record, '']'']"
  by code_simp



section \<open>The title of a new conversation\<close>

text \<open>
  Claim C9.  The first message of a conversation that the submission itself creates does
  not become the title.  In a session without a conversation (as after loading the page
  or after \<open>handleNewChat\<close>) the message \<open>Hello\<close> is submitted with a key set:
  \<open>handleSubmit\<close> calls \<open>createConversation\<close>, which stores the row under the default
  title and returns its id, sets \<open>conversationId\<close>, and goes on with the
  \<open>conversationId\<close> it closed over, which is still \<open>null\<close>: the next call is the
  stream, and when it has ended the activation returns.  Neither \<open>saveMessage\<close> nor
  \<open>updateConversationTitleWithFirstMessage\<close> is called, and the stored title is
  \<open>New Conversation\<close>, where the derivation would have stored \<open>Hello\<close>.  The second
  submission of the session sees two messages and does not derive a title either.
\<close>

theorem new_conversation_title_not_derived:
  "handleSubmit ui_new fresh1 ''Hello'' = Some new_activation
   \<and> resume_hasApiKey ui_new new_activation True
       = (ui_new, new_activation\<lparr>waiting_at := AwaitCreateConversation\<rparr>,
          [CallCreateConversation])
   \<and> returned (createConversation False False ''c3'' 3 default_title db0) = Some ''c3''
   \<and> resume_createConversation ui_new
         (new_activation\<lparr>waiting_at := AwaitCreateConversation\<rparr>) (Some ''c3'')
       = (ui_new_streaming, new_activation\<lparr>waiting_at := AwaitGenerate\<rparr>,
          [CallGenerateStreamingResponse ''Hello''])
   \<and> resume_generate ui_new_streaming (new_activation\<lparr>waiting_at := AwaitGenerate\<rparr>)
         (generateStreamingResponse cs_set (stream_of hello_chunks))
       = (ui_new_done, new_activation\<lparr>waiting_at := Returned\<rparr>, [])
   \<and> stored_title (final_store (createConversation False False ''c3'' 3 default_title db0))
         ''c3''
       = Some ''New Conversation''
   \<and> stored_title
         (final_store (updateConversationTitleWithFirstMessage False 4 ''c3'' ''Hello''
            (final_store (createConversation False False ''c3'' 3 default_title db0))))
         ''c3''
       = Some ''Hello''
   \<and> handleSubmit ui_new_done fresh2 ''again''
       = Some \<lparr>waiting_at = AwaitHasApiKey, a_content = ''again'',
               a_conversationId = Some ''c3'', a_messages_length = 2, a_fresh = fresh2\<rparr>
   \<and> snd (snd (resume_saveUserMessage ui_new_done
         \<lparr>waiting_at = AwaitSaveUserMessage, a_content = ''again'',
          a_conversationId = Some ''c3'', a_messages_length = 2, a_fresh = fresh2\<rparr>))
       = [CallGenerateStreamingResponse ''again'']"
  by code_simp
section \<open>Records and chunks\<close>


text \<open>
  A record on one line followed by the separator \<open>,\<close> line feed is not delivered by the
  pass of a chunk that ends with the comma: the candidate is then the record with the
  comma, which does not parse.  The text is delivered by the pass of the chunk that brings
  the line feed.
\<close>

lemma record_before_comma_delayed:
  "concat (take 2 two_chunks) = hello_record @ '',''
   \<and> arrived two_lines (length (concat (take 2 two_chunks))) = 1
   \<and> ready two_lines (length (concat (take 2 two_chunks))) = 0
   \<and> onChunk_calls (read_loop decodeRecord (take 2 two_chunks)) = []
   \<and> onChunk_calls (read_loop decodeRecord [hello_record @ '','']) = []
   \<and> onChunk_calls (read_loop decodeRecord [hello_record @ '','', ''\<newline>'']) = [''Hello'']"
  by code_simp


end
